theory Spec2Isabelle
  imports Main "HOL-Library.Word" "HOL-Library.Char_ord"
begin

unbundle bit_operations_syntax

section \<open>Data model (models.go)\<close>

text \<open>
  An instant of \<open>time.Time\<close> is a number of nanoseconds on the process clock. Go's \<open>int\<close>
  is the 64-bit two's-complement integer of the usual build targets, and
  \<open>time.Duration\<close> is an \<open>int64\<close> count of nanoseconds: both are \<open>64 word\<close>, read
  with \<open>sint\<close>, so that their arithmetic wraps as Go's does. A Go \<open>string\<close> is its
  sequence of bytes.
\<close>

type_synonym time = int

record Click =
  Timestamp :: time
  Source :: string
  Location :: string

record ShortURL =
  ShortCode :: string
  OriginalURL :: string
  CreatedAt :: time
  ExpiresAt :: time
  ClickCount :: "64 word"
  ClickHistory :: "Click list"

record CreateShortURLRequest =
  URL :: string
  Validity :: "64 word"
  ShortCode :: string

text \<open>
  \<open>Expiry\<close> is \<open>shortURL.ExpiresAt.Format(time.RFC3339)\<close> in the source; the model keeps
  the instant that is rendered.
\<close>

record CreateShortURLResponse =
  ShortLink :: string
  Expiry :: time

record ShortURLStats =
  TotalClicks :: "64 word"
  CreatedAt :: time
  ExpiresAt :: time
  Clicks :: "Click list"

text \<open>
  One constructor for each \<open>fmt.Errorf\<close> of url_service.go; \<open>Error\<close> gives the message
  the Go error carries.
\<close>

datatype error =
    EmptyURL
  | MalformedURL
  | BadLength
  | NonAlphanumeric
  | CodeCollision
  | NotFound
  | Expired
  | InvalidURL error
  | InvalidShortCode error

fun Error :: "error \<Rightarrow> string" where
  "Error EmptyURL = ''URL cannot be empty''"
| "Error MalformedURL = ''invalid URL format''"
| "Error BadLength = ''shortcode must be 4-20 characters''"
| "Error NonAlphanumeric = ''shortcode must be alphanumeric''"
| "Error CodeCollision = ''shortcode already exists''"
| "Error NotFound = ''shortcode not found''"
| "Error Expired = ''shortcode expired''"
| "Error (InvalidURL err) = ''invalid URL: '' @ Error err"
| "Error (InvalidShortCode err) = ''invalid shortcode: '' @ Error err"

text \<open>
  The registry: \<open>urls map[string]*ShortURL\<close>. Every pointer in the map is created by
  \<open>CreateShortURL\<close> for one key and never shared, so the map holds the records
  themselves. The mutex is represented by the granularity of the operations below: each
  locked region is one function of the state. Calls of the logger do not touch the
  registry and their results are dropped by every caller; they are left out.
\<close>

record URLService =
  urls :: "string \<rightharpoonup> ShortURL"

definition NewURLService :: URLService where
  "NewURLService = \<lparr>urls = Map.empty\<rparr>"

section \<open>Validation\<close>

text \<open>
  \<open>net/url.Parse\<close> belongs to the Go standard library, not to this repository: it is a
  parameter \<open>url_Parse\<close> of the functions that call it, \<open>None\<close> standing for a
  non-nil error. Of the parsed \<open>url.URL\<close> the model keeps three fields.
\<close>

record URL =
  Scheme :: string
  Host :: string
  Path :: string

definition HasPrefix :: "string \<Rightarrow> string \<Rightarrow> bool" where
  "HasPrefix s p \<longleftrightarrow> length p \<le> length s \<and> take (length p) s = p"

text \<open>The string that \<open>validateURL\<close> hands to the parser (its local \<open>rawURL\<close>).\<close>

definition addProtocol :: "string \<Rightarrow> string" where
  "addProtocol rawURL =
     (if \<not> HasPrefix rawURL ''http://'' \<and> \<not> HasPrefix rawURL ''https://''
      then ''https://'' @ rawURL else rawURL)"

definition validateURL :: "(string \<Rightarrow> URL option) \<Rightarrow> string \<Rightarrow> error + unit" where
  "validateURL url_Parse rawURL =
     (if rawURL = '''' then Inl EmptyURL
      else (case url_Parse (addProtocol rawURL) of
              None \<Rightarrow> Inl MalformedURL
            | Some _ \<Rightarrow> Inr ()))"

text \<open>
  \<open>for _, char := range shortCode\<close> walks the runes of the string. A byte below 0x80 is
  its own rune, and every rune decoded from bytes at or above 0x80 (U+FFFD included) is
  outside the three ranges, so the test on runes and the test on bytes reject the same
  strings; \<open>len(shortCode)\<close> counts bytes.
\<close>

definition isAlnum :: "char \<Rightarrow> bool" where
  "isAlnum c \<longleftrightarrow>
     (CHR ''a'' \<le> c \<and> c \<le> CHR ''z'') \<or> (CHR ''A'' \<le> c \<and> c \<le> CHR ''Z'') \<or>
     (CHR ''0'' \<le> c \<and> c \<le> CHR ''9'')"

fun validateShortCode_range :: "string \<Rightarrow> error + unit" where
  "validateShortCode_range [] = Inr ()"
| "validateShortCode_range (c # rest) =
     (if \<not> isAlnum c then Inl NonAlphanumeric else validateShortCode_range rest)"

definition validateShortCode :: "string \<Rightarrow> error + unit" where
  "validateShortCode shortCode =
     (if length shortCode < 4 \<or> length shortCode > 20 then Inl BadLength
      else validateShortCode_range shortCode)"

section \<open>Code generation\<close>

definition shortCodeExists :: "URLService \<Rightarrow> string \<Rightarrow> bool" where
  "shortCodeExists s shortCode \<longleftrightarrow> urls s shortCode \<noteq> None"

definition hextable :: string where
  "hextable = ''0123456789abcdef''"

text \<open>\<open>encoding/hex.EncodeToString\<close>: two digits per byte, high nibble first.\<close>

fun EncodeToString :: "8 word list \<Rightarrow> string" where
  "EncodeToString [] = []"
| "EncodeToString (v # src) =
     hextable ! unat (drop_bit 4 v) # hextable ! unat (v AND 0x0f) # EncodeToString src"

text \<open>
  One \<open>rand.Read\<close> into a fresh four-byte slice yields four bytes; \<open>codeOf\<close> is the
  candidate \<open>hex.EncodeToString(bytes)[:8]\<close> built from them.
\<close>

type_synonym bytes4 = "8 word \<times> 8 word \<times> 8 word \<times> 8 word"

fun codeOf :: "bytes4 \<Rightarrow> string" where
  "codeOf (b0, b1, b2, b3) = take 8 (EncodeToString [b0, b1, b2, b3])"

text \<open>
  The random source is the sequence \<open>rnd\<close> of the reads one call will see. The loop of
  \<open>generateShortCode\<close> has no bound: \<open>None\<close> is the run that never returns.
\<close>

partial_function (option) generateShortCode ::
    "URLService \<Rightarrow> (nat \<Rightarrow> bytes4) \<Rightarrow> nat \<Rightarrow> string option" where
  "generateShortCode s rnd i =
     (let shortCode = codeOf (rnd i)
      in if \<not> shortCodeExists s shortCode then Some shortCode
         else generateShortCode s rnd (Suc i))"

section \<open>Registry operations (url_service.go)\<close>

text \<open>
  \<open>time.Minute\<close> in nanoseconds. The product \<open>time.Duration(validity) * time.Minute\<close>
  wraps in 64 bits, and \<open>Add\<close> moves the instant by the signed result.
\<close>

definition minute :: "64 word" where
  "minute = 60000000000"

definition expiryOf :: "time \<Rightarrow> 64 word \<Rightarrow> time" where
  "expiryOf now validity = now + sint (validity * minute)"

definition effectiveValidity :: "64 word \<Rightarrow> 64 word" where
  "effectiveValidity validity = (if sint validity \<le> 0 then 30 else validity)"

text \<open>
  The entry built from the request: \<open>validity\<close> is the request's, or 30 when that is
  zero or less, and \<open>ExpiresAt\<close> is \<open>now.Add(time.Duration(validity) * time.Minute)\<close>.
\<close>

definition newShortURL :: "time \<Rightarrow> CreateShortURLRequest \<Rightarrow> string \<Rightarrow> ShortURL" where
  "newShortURL now req shortCode =
     \<lparr>ShortURL.ShortCode = shortCode,
      OriginalURL = URL req,
      ShortURL.CreatedAt = now,
      ShortURL.ExpiresAt = expiryOf now (effectiveValidity (Validity req)),
      ClickCount = 0,
      ClickHistory = []\<rparr>"

text \<open>
  One call of \<open>CreateShortURL\<close> holds the mutex only inside \<open>shortCodeExists\<close> (a read
  lock, released when the function returns) and around the assignment
  \<open>s.urls[shortCode] = shortURL\<close> (the write lock); between the two no lock is held.
  \<open>CreateShortURL_entry\<close> is the call up to the construction of the entry: validation
  of the URL, the default validity, and the generation of a code or the validation and
  collision check of the custom one. \<open>CreateShortURL_store\<close> is the locked assignment
  with the response. \<open>CreateShortURL\<close> is the whole call when no other call runs in
  between.
\<close>

definition CreateShortURL_entry ::
    "(string \<Rightarrow> URL option) \<Rightarrow> (nat \<Rightarrow> bytes4) \<Rightarrow> time \<Rightarrow> CreateShortURLRequest
      \<Rightarrow> URLService \<Rightarrow> (error + ShortURL) option" where
  "CreateShortURL_entry url_Parse rnd now req s =
     (case validateURL url_Parse (URL req) of
        Inl err \<Rightarrow> Some (Inl (InvalidURL err))
      | Inr _ \<Rightarrow>
          if CreateShortURLRequest.ShortCode req = '''' then
            (case generateShortCode s rnd 0 of
               None \<Rightarrow> None
             | Some shortCode \<Rightarrow> Some (Inr (newShortURL now req shortCode)))
          else
            (case validateShortCode (CreateShortURLRequest.ShortCode req) of
               Inl err \<Rightarrow> Some (Inl (InvalidShortCode err))
             | Inr _ \<Rightarrow>
                 if shortCodeExists s (CreateShortURLRequest.ShortCode req)
                 then Some (Inl CodeCollision)
                 else Some (Inr (newShortURL now req (CreateShortURLRequest.ShortCode req)))))"

definition CreateShortURL_store ::
    "ShortURL \<Rightarrow> URLService \<Rightarrow> CreateShortURLResponse \<times> URLService" where
  "CreateShortURL_store shortURL s =
     (\<lparr>ShortLink = ''http://localhost:3000/'' @ ShortURL.ShortCode shortURL,
       Expiry = ShortURL.ExpiresAt shortURL\<rparr>,
      s\<lparr>urls := (urls s)(ShortURL.ShortCode shortURL \<mapsto> shortURL)\<rparr>)"

definition CreateShortURL ::
    "(string \<Rightarrow> URL option) \<Rightarrow> (nat \<Rightarrow> bytes4) \<Rightarrow> time \<Rightarrow> CreateShortURLRequest
      \<Rightarrow> URLService \<Rightarrow> ((error + CreateShortURLResponse) \<times> URLService) option" where
  "CreateShortURL url_Parse rnd now req s =
     (case CreateShortURL_entry url_Parse rnd now req s of
        None \<Rightarrow> None
      | Some (Inl err) \<Rightarrow> Some (Inl err, s)
      | Some (Inr shortURL) \<Rightarrow>
          (case CreateShortURL_store shortURL s of (resp, s') \<Rightarrow> Some (Inr resp, s')))"

definition GetOriginalURL ::
    "time \<Rightarrow> string \<Rightarrow> URLService \<Rightarrow> (error + string) \<times> URLService" where
  "GetOriginalURL now shortCode s =
     (case urls s shortCode of
        None \<Rightarrow> (Inl NotFound, s)
      | Some shortURL \<Rightarrow>
          if now > ShortURL.ExpiresAt shortURL then (Inl Expired, s)
          else (Inr (OriginalURL shortURL), s))"

definition RecordClick ::
    "time \<Rightarrow> string \<Rightarrow> string \<Rightarrow> string \<Rightarrow> URLService \<Rightarrow> (error + unit) \<times> URLService" where
  "RecordClick now shortCode source location s =
     (case urls s shortCode of
        None \<Rightarrow> (Inl NotFound, s)
      | Some shortURL \<Rightarrow>
          (Inr (),
           s\<lparr>urls := (urls s)(shortCode \<mapsto>
                shortURL\<lparr>ClickCount := ClickCount shortURL + 1,
                         ClickHistory := ClickHistory shortURL @
                           [\<lparr>Timestamp = now, Source = source, Location = location\<rparr>]\<rparr>)\<rparr>))"

definition GetStats :: "string \<Rightarrow> URLService \<Rightarrow> (error + ShortURLStats) \<times> URLService" where
  "GetStats shortCode s =
     (case urls s shortCode of
        None \<Rightarrow> (Inl NotFound, s)
      | Some shortURL \<Rightarrow>
          (Inr \<lparr>TotalClicks = ClickCount shortURL,
                ShortURLStats.CreatedAt = ShortURL.CreatedAt shortURL,
                ShortURLStats.ExpiresAt = ShortURL.ExpiresAt shortURL,
                Clicks = ClickHistory shortURL\<rparr>, s))"

section \<open>Runs of the service\<close>

text \<open>
  A call of one of the four operations, and the registry after a sequence of calls. A
  call that fails leaves its error with the caller and the run goes on; a call of
  \<open>CreateShortURL\<close> that never returns ends the run (\<open>None\<close>).
\<close>

datatype op =
    CreateOp "string \<Rightarrow> URL option" "nat \<Rightarrow> bytes4" time CreateShortURLRequest
  | ResolveOp time string
  | ClickOp time string string string
  | StatsOp string

fun step :: "op \<Rightarrow> URLService \<Rightarrow> URLService option" where
  "step (CreateOp url_Parse rnd now req) s = map_option snd (CreateShortURL url_Parse rnd now req s)"
| "step (ResolveOp now shortCode) s = Some (snd (GetOriginalURL now shortCode s))"
| "step (ClickOp now shortCode source location) s =
     Some (snd (RecordClick now shortCode source location s))"
| "step (StatsOp shortCode) s = Some (snd (GetStats shortCode s))"

fun run :: "op list \<Rightarrow> URLService \<Rightarrow> URLService option" where
  "run [] s = Some s"
| "run (x # xs) s = (case step x s of None \<Rightarrow> None | Some s' \<Rightarrow> run xs s')"

text \<open>Successive calls of \<open>RecordClick\<close> on one code, each with its instant, source and location.\<close>

fun clickOf :: "time \<times> string \<times> string \<Rightarrow> Click" where
  "clickOf (now, source, location) = \<lparr>Timestamp = now, Source = source, Location = location\<rparr>"

fun RecordClicks :: "string \<Rightarrow> (time \<times> string \<times> string) list \<Rightarrow> URLService \<Rightarrow> URLService" where
  "RecordClicks shortCode [] s = s"
| "RecordClicks shortCode ((now, source, location) # cs) s =
     RecordClicks shortCode cs (snd (RecordClick now shortCode source location s))"

section \<open>Concrete inputs\<close>

text \<open>
  What \<open>net/url.Parse\<close> returns on five strings. A scheme followed by \<open>//\<close> and a
  host name without port or userinfo parses without error, and so does the bare
  \<open>https://\<close>, with an empty host; a space in the host is an error (invalid character
  in host name). The other strings are not needed below and are left as errors.
\<close>

definition url_Parse_sample :: "string \<Rightarrow> URL option" where
  "url_Parse_sample rawURL =
     (if rawURL = ''https://a b.com'' then None
      else if rawURL = ''https://example.com''
        then Some \<lparr>Scheme = ''https'', Host = ''example.com'', Path = []\<rparr>
      else if rawURL = ''https://a.com''
        then Some \<lparr>Scheme = ''https'', Host = ''a.com'', Path = []\<rparr>
      else if rawURL = ''https://b.com''
        then Some \<lparr>Scheme = ''https'', Host = ''b.com'', Path = []\<rparr>
      else if rawURL = ''https://''
        then Some \<lparr>Scheme = ''https'', Host = [], Path = []\<rparr>
      else None)"

text \<open>
  Two predicates of the specification: a lowercase hexadecimal digit, and a parse that
  succeeded with both scheme and host present.
\<close>

definition isLowerHex :: "char \<Rightarrow> bool" where
  "isLowerHex c \<longleftrightarrow>
     (CHR ''0'' \<le> c \<and> c \<le> CHR ''9'') \<or> (CHR ''a'' \<le> c \<and> c \<le> CHR ''f'')"

definition schemeAndHost :: "URL option \<Rightarrow> bool" where
  "schemeAndHost parsed =
     (case parsed of None \<Rightarrow> False | Some u \<Rightarrow> Scheme u \<noteq> [] \<and> Host u \<noteq> [])"

text \<open>
  The registry keeps count of its clicks when, for every record, \<open>ClickCount\<close> is the
  length of \<open>ClickHistory\<close> as a 64-bit integer.
\<close>

definition countsClicks :: "URLService \<Rightarrow> bool" where
  "countsClicks s \<longleftrightarrow>
     (\<forall>code r. urls s code = Some r \<longrightarrow> ClickCount r = of_nat (length (ClickHistory r)))"

text \<open>A random source whose reads give the codes 00000000, 00000001, 00000002, ...\<close>

definition rnd_sample :: "nat \<Rightarrow> bytes4" where
  "rnd_sample i = (0, 0, 0, of_nat i)"

text \<open>
  The registry after \<open>{url: https://a.com, validity: 1, shortcode: abcd}\<close> was created at
  instant 0: the entry expires after 60 seconds.
\<close>

definition entry_abcd :: ShortURL where
  "entry_abcd =
     \<lparr>ShortURL.ShortCode = ''abcd'', OriginalURL = ''https://a.com'',
      ShortURL.CreatedAt = 0, ShortURL.ExpiresAt = 60000000000,
      ClickCount = 0, ClickHistory = []\<rparr>"

definition service_abcd :: URLService where
  "service_abcd = \<lparr>urls = [''abcd'' \<mapsto> entry_abcd]\<rparr>"

text \<open>
  The registry after \<open>{url: example.com, validity: 60}\<close> was created at instant 0 with the
  random source above: the generated code is 00000000 and the entry expires after an hour.
\<close>

definition entry_example :: ShortURL where
  "entry_example =
     \<lparr>ShortURL.ShortCode = ''00000000'', OriginalURL = ''example.com'',
      ShortURL.CreatedAt = 0, ShortURL.ExpiresAt = 3600000000000,
      ClickCount = 0, ClickHistory = []\<rparr>"

definition service_example :: URLService where
  "service_example = \<lparr>urls = [''00000000'' \<mapsto> entry_example]\<rparr>"

section \<open>Generated codes\<close>

lemma hextable_all: "list_all isLowerHex hextable"
  by (simp add: hextable_def isLowerHex_def)

lemma hextable_nth: "n < 16 \<Longrightarrow> isLowerHex (hextable ! n)"
  using hextable_all by (simp add: list_all_length hextable_def)

lemma nibble_high_lt: "unat (drop_bit 4 (v :: 8 word)) < 16"
proof -
  have "unat v < 256" using unsigned_less [of v] by simp
  then show ?thesis by (simp add: drop_bit_eq_div unat_div)
qed

lemma nibble_low_lt: "unat ((v :: 8 word) AND 0x0f) < 16"
proof -
  have "v AND 0x0f = take_bit 4 v"
    by (simp add: take_bit_eq_mask mask_eq_exp_minus_1)
  moreover have "unat (take_bit 4 v) < 2 ^ 4"
    using take_bit_nat_less_exp [of 4 "unat v"] by (simp add: unsigned_take_bit_eq)
  ultimately show ?thesis by simp
qed

lemma length_EncodeToString: "length (EncodeToString src) = 2 * length src"
  by (induction src) simp_all

lemma EncodeToString_hex: "list_all isLowerHex (EncodeToString src)"
  by (induction src) (simp_all add: hextable_nth nibble_high_lt nibble_low_lt)

lemma length_codeOf: "length (codeOf b) = 8"
  by (cases b) (simp add: length_EncodeToString)

lemma codeOf_hex: "list_all isLowerHex (codeOf b)"
proof (cases b)
  case (fields b0 b1 b2 b3)
  have "list_all isLowerHex (EncodeToString [b0, b1, b2, b3])" by (rule EncodeToString_hex)
  then show ?thesis unfolding fields codeOf.simps
    by (simp only: list_all_iff) (meson in_set_takeD)
qed

lemma generateShortCode_Some:
  assumes "generateShortCode s rnd i = Some c"
  shows "\<exists>j\<ge>i. c = codeOf (rnd j) \<and> \<not> shortCodeExists s c \<and>
           (\<forall>m. i \<le> m \<and> m < j \<longrightarrow> shortCodeExists s (codeOf (rnd m)))"
proof -
  let ?Q = "\<lambda>s rnd i c. \<exists>j\<ge>i. c = codeOf (rnd j) \<and> \<not> shortCodeExists s c \<and>
           (\<forall>m. i \<le> m \<and> m < j \<longrightarrow> shortCodeExists s (codeOf (rnd m)))"
  have "?Q s rnd i c"
  proof (rule generateShortCode.raw_induct [where P = ?Q, OF _ assms])
    fix gen :: "URLService \<Rightarrow> (nat \<Rightarrow> bytes4) \<Rightarrow> nat \<Rightarrow> string option"
    fix s rnd i c
    assume IH: "\<And>s rnd i c. gen s rnd i = Some c \<Longrightarrow> ?Q s rnd i c"
    assume body: "(let shortCode = codeOf (rnd i)
        in if \<not> shortCodeExists s shortCode then Some shortCode
           else gen s rnd (Suc i)) = Some c"
    show "?Q s rnd i c"
    proof (cases "shortCodeExists s (codeOf (rnd i))")
      case False
      with body have "c = codeOf (rnd i)" by (simp add: Let_def)
      with False show ?thesis by (intro exI [of _ i]) auto
    next
      case True
      with body have "gen s rnd (Suc i) = Some c" by (simp add: Let_def)
      from IH [OF this] obtain j where j: "Suc i \<le> j" "c = codeOf (rnd j)"
        "\<not> shortCodeExists s c"
        "\<forall>m. Suc i \<le> m \<and> m < j \<longrightarrow> shortCodeExists s (codeOf (rnd m))" by blast
      have "\<forall>m. i \<le> m \<and> m < j \<longrightarrow> shortCodeExists s (codeOf (rnd m))"
        using j(4) True by (metis Suc_leI le_neq_implies_less)
      with j show ?thesis by (intro exI [of _ j]) auto
    qed
  qed
  then show ?thesis .
qed

lemma generateShortCode_returns:
  "\<not> shortCodeExists s (codeOf (rnd k)) \<Longrightarrow> i \<le> k \<Longrightarrow> \<exists>c. generateShortCode s rnd i = Some c"
proof (induction "k - i" arbitrary: i)
  case 0
  then have "i = k" by simp
  with 0 show ?case by (subst generateShortCode.simps) (simp add: Let_def)
next
  case (Suc d)
  show ?case
  proof (cases "shortCodeExists s (codeOf (rnd i))")
    case False
    then show ?thesis by (subst generateShortCode.simps) (simp add: Let_def)
  next
    case True
    from Suc have "d = k - Suc i" "Suc i \<le> k" by simp_all
    from Suc(1) [OF this(1) Suc(3) this(2)] obtain c where "generateShortCode s rnd (Suc i) = Some c" ..
    with True show ?thesis by (subst generateShortCode.simps) (simp add: Let_def)
  qed
qed

lemma generateShortCode_None:
  assumes "\<forall>j\<ge>i. shortCodeExists s (codeOf (rnd j))"
  shows "generateShortCode s rnd i = None"
proof (cases "generateShortCode s rnd i")
  case None
  then show ?thesis .
next
  case (Some c)
  from generateShortCode_Some [OF this] assms show ?thesis by blast
qed

section \<open>What a call of CreateShortURL leaves behind\<close>

lemma CreateShortURL_Inl:
  assumes "CreateShortURL url_Parse rnd now req s = Some (Inl err, s')"
  shows "s' = s"
  using assms
  by (auto simp add: CreateShortURL_def CreateShortURL_store_def split: option.splits sum.splits prod.splits)

lemma CreateShortURL_Inr:
  assumes "CreateShortURL url_Parse rnd now req s = Some (Inr resp, s')"
  shows "\<exists>code. validateURL url_Parse (URL req) = Inr () \<and>
           \<not> shortCodeExists s code \<and>
           resp = \<lparr>ShortLink = ''http://localhost:3000/'' @ code,
                   Expiry = expiryOf now (effectiveValidity (Validity req))\<rparr> \<and>
           s' = s\<lparr>urls := (urls s)(code \<mapsto> newShortURL now req code)\<rparr> \<and>
           (if CreateShortURLRequest.ShortCode req = []
            then \<exists>j. code = codeOf (rnd j)
            else code = CreateShortURLRequest.ShortCode req \<and> validateShortCode code = Inr ())"
proof (cases "CreateShortURLRequest.ShortCode req = []")
  case True
  with assms obtain code where gen: "generateShortCode s rnd 0 = Some code"
    and url: "validateURL url_Parse (URL req) = Inr ()"
    and res: "CreateShortURL_store (newShortURL now req code) s = (resp, s')"
    by (auto simp add: CreateShortURL_def CreateShortURL_entry_def
        split: option.splits sum.splits prod.splits if_splits)
  from generateShortCode_Some [OF gen] obtain j where
    "code = codeOf (rnd j)" "\<not> shortCodeExists s code" by blast
  with url res True show ?thesis
    by (intro exI [of _ code]) (auto simp add: CreateShortURL_store_def newShortURL_def)
next
  case False
  with assms show ?thesis
    by (intro exI [of _ "CreateShortURLRequest.ShortCode req"])
      (auto simp add: CreateShortURL_def CreateShortURL_entry_def CreateShortURL_store_def
        newShortURL_def split: option.splits sum.splits prod.splits if_splits)
qed

lemma CreateShortURL_collision:
  assumes "CreateShortURLRequest.ShortCode req \<noteq> []"
    and "shortCodeExists s (CreateShortURLRequest.ShortCode req)"
  shows "CreateShortURL url_Parse rnd now req s =
     Some (Inl (case validateURL url_Parse (URL req) of
                  Inl err \<Rightarrow> InvalidURL err
                | Inr _ \<Rightarrow> (case validateShortCode (CreateShortURLRequest.ShortCode req) of
                              Inl err \<Rightarrow> InvalidShortCode err
                            | Inr _ \<Rightarrow> CodeCollision)), s)"
  using assms
  by (simp add: CreateShortURL_def CreateShortURL_entry_def split: sum.splits)

lemma CreateShortURL_countsClicks:
  assumes "countsClicks s" and "CreateShortURL url_Parse rnd now req s = Some (res, s')"
  shows "countsClicks s'"
proof (cases res)
  case (Inl err)
  with assms CreateShortURL_Inl show ?thesis by blast
next
  case (Inr resp)
  with assms(2) CreateShortURL_Inr obtain code where
    "s' = s\<lparr>urls := (urls s)(code \<mapsto> newShortURL now req code)\<rparr>" by blast
  with assms(1) show ?thesis by (simp add: countsClicks_def newShortURL_def)
qed

lemma RecordClick_countsClicks:
  assumes "countsClicks s"
  shows "countsClicks (snd (RecordClick now code source location s))"
  using assms by (auto simp add: countsClicks_def RecordClick_def split: option.splits)

lemma step_countsClicks:
  assumes "countsClicks s" and "step x s = Some s'"
  shows "countsClicks s'"
proof (cases x)
  case (CreateOp url_Parse rnd now req)
  with assms(2) obtain res where "CreateShortURL url_Parse rnd now req s = Some (res, s')"
    by auto
  with assms(1) show ?thesis by (rule CreateShortURL_countsClicks)
next
  case (ResolveOp now code)
  with assms show ?thesis by (auto simp add: GetOriginalURL_def split: option.splits)
next
  case (ClickOp now code source location)
  with assms RecordClick_countsClicks [of s now code source location] show ?thesis by auto
next
  case (StatsOp code)
  with assms show ?thesis by (auto simp add: GetStats_def split: option.splits)
qed

lemma run_countsClicks:
  assumes "countsClicks s" and "run ops s = Some s'"
  shows "countsClicks s'"
  using assms
proof (induction ops arbitrary: s)
  case Nil
  then show ?case by simp
next
  case (Cons x xs)
  from Cons.prems(2) obtain s1 where s1: "step x s = Some s1" "run xs s1 = Some s'"
    by (auto split: option.splits)
  from step_countsClicks [OF Cons.prems(1) s1(1)] s1(2) show ?case by (rule Cons.IH)
qed

lemma countsClicks_New: "countsClicks NewURLService"
  by (simp add: countsClicks_def NewURLService_def)

lemma RecordClicks_present:
  assumes "urls s code = Some r"
  shows "urls (RecordClicks code cs s) code =
     Some (r\<lparr>ClickCount := ClickCount r + of_nat (length cs),
             ClickHistory := ClickHistory r @ map clickOf cs\<rparr>)"
  using assms
proof (induction cs arbitrary: s r)
  case Nil
  then show ?case by simp
next
  case (Cons c cs)
  obtain now source location where c: "c = (now, source, location)" by (cases c)
  let ?r = "r\<lparr>ClickCount := ClickCount r + 1,
               ClickHistory := ClickHistory r @ [clickOf c]\<rparr>"
  have "urls (snd (RecordClick now code source location s)) code = Some ?r"
    using Cons.prems by (simp add: RecordClick_def c)
  from Cons.IH [OF this] show ?case by (simp add: c)
qed

lemma sint_of_nat_small:
  assumes "n < 2 ^ 63"
  shows "sint (of_nat n :: 64 word) = int n"
  using assms by (simp add: signed_of_nat signed_take_bit_int_eq_self)

section \<open>Resolve\<close>

text \<open>
  C2. For every code, \<open>GetOriginalURL\<close> fails with \<open>NotFound\<close> when the code is absent;
  when the code is present and \<open>now\<close> is strictly after \<open>ExpiresAt\<close> it fails with
  \<open>Expired\<close> and the record stays in the mapping unchanged; when present and not
  expired it returns the stored \<open>OriginalURL\<close>. In every case the registry that comes
  back is the registry that went in, so no click is recorded.
\<close>

theorem GetOriginalURL_cases:
  "(urls s code = None \<longrightarrow> GetOriginalURL now code s = (Inl NotFound, s)) \<and>
   (\<forall>r. urls s code = Some r \<and> now > ShortURL.ExpiresAt r \<longrightarrow>
      GetOriginalURL now code s = (Inl Expired, s) \<and>
      urls (snd (GetOriginalURL now code s)) code = Some r) \<and>
   (\<forall>r. urls s code = Some r \<and> \<not> now > ShortURL.ExpiresAt r \<longrightarrow>
      GetOriginalURL now code s = (Inr (OriginalURL r), s)) \<and>
   snd (GetOriginalURL now code s) = s"
  by (simp add: GetOriginalURL_def split: option.split)

theorem GetOriginalURL_cases_witness:
  "GetOriginalURL 5 ''wxyz'' service_abcd = (Inl NotFound, service_abcd) \<and>
   GetOriginalURL 60000000001 ''abcd'' service_abcd = (Inl Expired, service_abcd) \<and>
   urls (snd (GetOriginalURL 60000000001 ''abcd'' service_abcd)) ''abcd'' = Some entry_abcd \<and>
   GetOriginalURL 60000000000 ''abcd'' service_abcd = (Inr ''https://a.com'', service_abcd)"
  using GetOriginalURL_cases [of service_abcd "''wxyz''" 5]
    GetOriginalURL_cases [of service_abcd "''abcd''" 60000000001]
    GetOriginalURL_cases [of service_abcd "''abcd''" 60000000000]
  by (simp add: service_abcd_def entry_abcd_def)

lemma service_abcd_created:
  "CreateShortURL url_Parse_sample rnd_sample 0
     \<lparr>URL = ''https://a.com'', Validity = 1, ShortCode = ''abcd''\<rparr> NewURLService =
   Some (Inr \<lparr>ShortLink = ''http://localhost:3000/abcd'', Expiry = 60000000000\<rparr>, service_abcd)"
  by (simp add: CreateShortURL_def CreateShortURL_entry_def CreateShortURL_store_def
      validateURL_def addProtocol_def HasPrefix_def url_Parse_sample_def validateShortCode_def
      isAlnum_def shortCodeExists_def NewURLService_def newShortURL_def expiryOf_def
      effectiveValidity_def minute_def service_abcd_def entry_abcd_def)

section \<open>Recording a click\<close>

text \<open>
  C3. For every code present in the mapping \<open>RecordClick\<close> succeeds whatever the instant
  is, before or after \<open>ExpiresAt\<close>: in one step it appends exactly one click with the
  current instant, the given source and location to \<open>ClickHistory\<close> and adds one to
  \<open>ClickCount\<close>, leaving the other fields of the record and the other records as they
  were. For every absent code it fails with \<open>NotFound\<close> and the registry is unchanged.
\<close>

theorem RecordClick_cases:
  "(\<forall>r. urls s code = Some r \<longrightarrow>
      (\<exists>r'. RecordClick now code source location s = (Inr (), s\<lparr>urls := (urls s)(code \<mapsto> r')\<rparr>) \<and>
         ClickHistory r' =
           ClickHistory r @ [\<lparr>Timestamp = now, Source = source, Location = location\<rparr>] \<and>
         ClickCount r' = ClickCount r + 1 \<and>
         ShortURL.ShortCode r' = ShortURL.ShortCode r \<and> OriginalURL r' = OriginalURL r \<and>
         ShortURL.CreatedAt r' = ShortURL.CreatedAt r \<and>
         ShortURL.ExpiresAt r' = ShortURL.ExpiresAt r)) \<and>
   (urls s code = None \<longrightarrow> RecordClick now code source location s = (Inl NotFound, s))"
proof (intro conjI allI impI)
  fix r
  assume present: "urls s code = Some r"
  define r' where
    "r' = r\<lparr>ClickCount := ClickCount r + 1,
            ClickHistory := ClickHistory r @
              [\<lparr>Timestamp = now, Source = source, Location = location\<rparr>]\<rparr>"
  have "RecordClick now code source location s = (Inr (), s\<lparr>urls := (urls s)(code \<mapsto> r')\<rparr>)"
    using present by (simp add: RecordClick_def r'_def)
  then show "\<exists>r'. RecordClick now code source location s =
        (Inr (), s\<lparr>urls := (urls s)(code \<mapsto> r')\<rparr>) \<and>
      ClickHistory r' =
        ClickHistory r @ [\<lparr>Timestamp = now, Source = source, Location = location\<rparr>] \<and>
      ClickCount r' = ClickCount r + 1 \<and>
      ShortURL.ShortCode r' = ShortURL.ShortCode r \<and> OriginalURL r' = OriginalURL r \<and>
      ShortURL.CreatedAt r' = ShortURL.CreatedAt r \<and>
      ShortURL.ExpiresAt r' = ShortURL.ExpiresAt r"
    by (intro exI [of _ r']) (simp add: r'_def)
next
  assume "urls s code = None"
  then show "RecordClick now code source location s = (Inl NotFound, s)"
    by (simp add: RecordClick_def)
qed

theorem RecordClick_cases_witness:
  "RecordClick 60000000001 ''abcd'' ''direct'' ''unknown'' service_abcd =
     (Inr (), \<lparr>urls = [''abcd'' \<mapsto> entry_abcd\<lparr>ClickCount := 1,
        ClickHistory := [\<lparr>Timestamp = 60000000001, Source = ''direct'', Location = ''unknown''\<rparr>]\<rparr>]\<rparr>) \<and>
   ShortURL.ExpiresAt entry_abcd < 60000000001 \<and>
   RecordClick 5 ''wxyz'' ''direct'' ''unknown'' service_abcd = (Inl NotFound, service_abcd)"
proof -
  have present: "urls service_abcd ''abcd'' = Some entry_abcd"
    and absent: "urls service_abcd ''wxyz'' = None"
    by (simp_all add: service_abcd_def)
  from RecordClick_cases [of service_abcd "''abcd''" 60000000001 "''direct''" "''unknown''"] present
  obtain r' where
    "RecordClick 60000000001 ''abcd'' ''direct'' ''unknown'' service_abcd =
       (Inr (), service_abcd\<lparr>urls := (urls service_abcd)(''abcd'' \<mapsto> r')\<rparr>)"
    "ClickHistory r' = ClickHistory entry_abcd @
       [\<lparr>Timestamp = 60000000001, Source = ''direct'', Location = ''unknown''\<rparr>]"
    "ClickCount r' = ClickCount entry_abcd + 1"
    "ShortURL.ShortCode r' = ShortURL.ShortCode entry_abcd"
    "OriginalURL r' = OriginalURL entry_abcd"
    "ShortURL.CreatedAt r' = ShortURL.CreatedAt entry_abcd"
    "ShortURL.ExpiresAt r' = ShortURL.ExpiresAt entry_abcd"
    by blast
  moreover have "r' = entry_abcd\<lparr>ClickCount := 1,
      ClickHistory := [\<lparr>Timestamp = 60000000001, Source = ''direct'', Location = ''unknown''\<rparr>]\<rparr>"
    using calculation by (intro ShortURL.equality) (simp_all add: entry_abcd_def)
  ultimately have "RecordClick 60000000001 ''abcd'' ''direct'' ''unknown'' service_abcd =
     (Inr (), \<lparr>urls = [''abcd'' \<mapsto> entry_abcd\<lparr>ClickCount := 1,
        ClickHistory := [\<lparr>Timestamp = 60000000001, Source = ''direct'', Location = ''unknown''\<rparr>]\<rparr>]\<rparr>)"
    by (simp add: service_abcd_def)
  moreover have "ShortURL.ExpiresAt entry_abcd < 60000000001"
    by (simp add: entry_abcd_def)
  moreover have "RecordClick 5 ''wxyz'' ''direct'' ''unknown'' service_abcd = (Inl NotFound, service_abcd)"
    using RecordClick_cases [of service_abcd "''wxyz''" 5 "''direct''" "''unknown''"] absent
    by simp
  ultimately show ?thesis by simp
qed

section \<open>The click counter\<close>

text \<open>
  C5. In every registry reached from the empty one by a sequence of calls (creates,
  clicks, and the two read operations), every record has \<open>ClickCount\<close> equal to the
  length of \<open>ClickHistory\<close>: as 64-bit integers without condition, and as numbers as
  long as the history is shorter than \<open>2 ^ 63\<close>, which the length of a Go slice always
  is. From such a registry, after \<open>n\<close> further calls of \<open>RecordClick\<close> on an existing code
  whose history had \<open>k\<close> clicks, \<open>GetStats\<close> reports \<open>k + n\<close> clicks and the history
  followed by the \<open>n\<close> new clicks in call order; for a code that was just created
  \<open>k = 0\<close>, so the total is \<open>n\<close> and the list holds exactly the \<open>n\<close> clicks.
\<close>

theorem clickCount_is_history_length:
  assumes "run ops NewURLService = Some s" and "urls s code = Some r"
  shows "ClickCount r = of_nat (length (ClickHistory r)) \<and>
    (length (ClickHistory r) < 2 ^ 63 \<longrightarrow> sint (ClickCount r) = int (length (ClickHistory r))) \<and>
    (\<forall>cs. GetStats code (RecordClicks code cs s) =
       (Inr \<lparr>TotalClicks = of_nat (length (ClickHistory r) + length cs),
              ShortURLStats.CreatedAt = ShortURL.CreatedAt r,
              ShortURLStats.ExpiresAt = ShortURL.ExpiresAt r,
              Clicks = ClickHistory r @ map clickOf cs\<rparr>, RecordClicks code cs s) \<and>
       (length (ClickHistory r) + length cs < 2 ^ 63 \<longrightarrow>
          sint (of_nat (length (ClickHistory r) + length cs) :: 64 word) =
            int (length (ClickHistory r) + length cs)))"
proof -
  from run_countsClicks [OF countsClicks_New assms(1)] assms(2)
  have count: "ClickCount r = of_nat (length (ClickHistory r))"
    by (simp add: countsClicks_def)
  have signed: "length (ClickHistory r) < 2 ^ 63 \<longrightarrow>
      sint (ClickCount r) = int (length (ClickHistory r))"
    using count sint_of_nat_small by simp
  have stats: "GetStats code (RecordClicks code cs s) =
       (Inr \<lparr>TotalClicks = of_nat (length (ClickHistory r) + length cs),
              ShortURLStats.CreatedAt = ShortURL.CreatedAt r,
              ShortURLStats.ExpiresAt = ShortURL.ExpiresAt r,
              Clicks = ClickHistory r @ map clickOf cs\<rparr>, RecordClicks code cs s)" for cs
    using RecordClicks_present [OF assms(2), of cs] count by (simp add: GetStats_def)
  from count signed stats sint_of_nat_small show ?thesis by blast
qed

theorem clickCount_is_history_length_witness:
  "run [CreateOp url_Parse_sample rnd_sample 0
          \<lparr>URL = ''https://a.com'', Validity = 1, ShortCode = ''abcd''\<rparr>,
        ClickOp 5 ''abcd'' ''direct'' ''unknown''] NewURLService =
     Some \<lparr>urls = [''abcd'' \<mapsto> entry_abcd\<lparr>ClickCount := 1, ClickHistory := [clickOf (5, ''direct'', ''unknown'')]\<rparr>]\<rparr> \<and>
   GetStats ''abcd'' (RecordClicks ''abcd'' [(7, ''https://google.com'', ''unknown''), (9, ''direct'', ''unknown'')]
      \<lparr>urls = [''abcd'' \<mapsto> entry_abcd\<lparr>ClickCount := 1, ClickHistory := [clickOf (5, ''direct'', ''unknown'')]\<rparr>]\<rparr>) =
    (Inr \<lparr>TotalClicks = 3, ShortURLStats.CreatedAt = 0, ShortURLStats.ExpiresAt = 60000000000,
           Clicks = [clickOf (5, ''direct'', ''unknown''), clickOf (7, ''https://google.com'', ''unknown''),
                     clickOf (9, ''direct'', ''unknown'')]\<rparr>,
     RecordClicks ''abcd'' [(7, ''https://google.com'', ''unknown''), (9, ''direct'', ''unknown'')]
      \<lparr>urls = [''abcd'' \<mapsto> entry_abcd\<lparr>ClickCount := 1, ClickHistory := [clickOf (5, ''direct'', ''unknown'')]\<rparr>]\<rparr>)"
proof -
  let ?r = "entry_abcd\<lparr>ClickCount := 1, ClickHistory := [clickOf (5, ''direct'', ''unknown'')]\<rparr>"
  let ?s = "\<lparr>urls = [''abcd'' \<mapsto> ?r]\<rparr>"
  have reached: "run [CreateOp url_Parse_sample rnd_sample 0
          \<lparr>URL = ''https://a.com'', Validity = 1, ShortCode = ''abcd''\<rparr>,
        ClickOp 5 ''abcd'' ''direct'' ''unknown''] NewURLService = Some ?s"
    by (simp add: service_abcd_created RecordClick_def service_abcd_def entry_abcd_def)
  have present: "urls ?s ''abcd'' = Some ?r" by simp
  from clickCount_is_history_length [OF reached present]
  have "GetStats ''abcd'' (RecordClicks ''abcd''
      [(7, ''https://google.com'', ''unknown''), (9, ''direct'', ''unknown'')] ?s) =
       (Inr \<lparr>TotalClicks = of_nat (length (ClickHistory ?r) + length [(7::int, ''https://google.com'', ''unknown''), (9, ''direct'', ''unknown'')]),
              ShortURLStats.CreatedAt = ShortURL.CreatedAt ?r,
              ShortURLStats.ExpiresAt = ShortURL.ExpiresAt ?r,
              Clicks = ClickHistory ?r @ map clickOf [(7, ''https://google.com'', ''unknown''), (9, ''direct'', ''unknown'')]\<rparr>,
        RecordClicks ''abcd'' [(7, ''https://google.com'', ''unknown''), (9, ''direct'', ''unknown'')] ?s)"
    by blast
  then have "GetStats ''abcd'' (RecordClicks ''abcd''
      [(7, ''https://google.com'', ''unknown''), (9, ''direct'', ''unknown'')] ?s) =
    (Inr \<lparr>TotalClicks = 3, ShortURLStats.CreatedAt = 0, ShortURLStats.ExpiresAt = 60000000000,
           Clicks = [clickOf (5, ''direct'', ''unknown''), clickOf (7, ''https://google.com'', ''unknown''),
                     clickOf (9, ''direct'', ''unknown'')]\<rparr>,
     RecordClicks ''abcd'' [(7, ''https://google.com'', ''unknown''), (9, ''direct'', ''unknown'')] ?s)"
    by (simp add: entry_abcd_def)
  with reached show ?thesis by blast
qed

section \<open>Statistics\<close>

text \<open>
  C6. For every code, \<open>GetStats\<close> fails with \<open>NotFound\<close> exactly when the code is absent
  from the mapping; otherwise it returns the snapshot of the record's \<open>ClickCount\<close>,
  \<open>CreatedAt\<close>, \<open>ExpiresAt\<close> and \<open>ClickHistory\<close>. The function takes no instant, so
  nothing depends on expiry. The registry it returns is the one it was given. Right
  after a successful \<open>CreateShortURL\<close> the statistics of the code in the returned
  link report zero clicks.
\<close>

theorem GetStats_cases:
  "(fst (GetStats code s) = Inl NotFound \<longleftrightarrow> urls s code = None) \<and>
   (\<forall>r. urls s code = Some r \<longrightarrow>
      GetStats code s =
        (Inr \<lparr>TotalClicks = ClickCount r,
               ShortURLStats.CreatedAt = ShortURL.CreatedAt r,
               ShortURLStats.ExpiresAt = ShortURL.ExpiresAt r,
               Clicks = ClickHistory r\<rparr>, s)) \<and>
   snd (GetStats code s) = s \<and>
   (\<forall>url_Parse rnd now req resp s'.
      CreateShortURL url_Parse rnd now req s = Some (Inr resp, s') \<longrightarrow>
      (\<exists>code' stats. ShortLink resp = ''http://localhost:3000/'' @ code' \<and>
         GetStats code' s' = (Inr stats, s') \<and> TotalClicks stats = 0))"
proof (intro conjI allI impI)
  show "fst (GetStats code s) = Inl NotFound \<longleftrightarrow> urls s code = None"
    by (simp add: GetStats_def split: option.split)
  show "snd (GetStats code s) = s"
    by (simp add: GetStats_def split: option.split)
next
  fix r
  assume "urls s code = Some r"
  then show "GetStats code s =
        (Inr \<lparr>TotalClicks = ClickCount r,
               ShortURLStats.CreatedAt = ShortURL.CreatedAt r,
               ShortURLStats.ExpiresAt = ShortURL.ExpiresAt r,
               Clicks = ClickHistory r\<rparr>, s)"
    by (simp add: GetStats_def)
next
  fix url_Parse rnd now req resp s'
  assume "CreateShortURL url_Parse rnd now req s = Some (Inr resp, s')"
  from CreateShortURL_Inr [OF this] obtain code' where
    resp: "resp = \<lparr>ShortLink = ''http://localhost:3000/'' @ code',
                   Expiry = expiryOf now (effectiveValidity (Validity req))\<rparr>"
    and s': "s' = s\<lparr>urls := (urls s)(code' \<mapsto> newShortURL now req code')\<rparr>"
    by blast
  have "GetStats code' s' =
      (Inr \<lparr>TotalClicks = 0, ShortURLStats.CreatedAt = now,
             ShortURLStats.ExpiresAt = expiryOf now (effectiveValidity (Validity req)),
             Clicks = []\<rparr>, s')"
    by (simp add: s' GetStats_def newShortURL_def)
  with resp show "\<exists>code' stats. ShortLink resp = ''http://localhost:3000/'' @ code' \<and>
         GetStats code' s' = (Inr stats, s') \<and> TotalClicks stats = 0"
    by (intro exI [of _ code']) simp
qed

theorem GetStats_cases_witness:
  "fst (GetStats ''wxyz'' service_abcd) = Inl NotFound \<and>
   GetStats ''abcd'' service_abcd =
     (Inr \<lparr>TotalClicks = 0, ShortURLStats.CreatedAt = 0, ShortURLStats.ExpiresAt = 60000000000,
            Clicks = []\<rparr>, service_abcd) \<and>
   CreateShortURL url_Parse_sample rnd_sample 0
     \<lparr>URL = ''https://a.com'', Validity = 1, ShortCode = ''abcd''\<rparr> NewURLService =
   Some (Inr \<lparr>ShortLink = ''http://localhost:3000/abcd'', Expiry = 60000000000\<rparr>, service_abcd) \<and>
   (\<exists>code' stats. ''http://localhost:3000/abcd'' = ''http://localhost:3000/'' @ code' \<and>
      GetStats code' service_abcd = (Inr stats, service_abcd) \<and> TotalClicks stats = 0)"
proof -
  have absent: "urls service_abcd ''wxyz'' = None"
    and present: "urls service_abcd ''abcd'' = Some entry_abcd"
    by (simp_all add: service_abcd_def)
  from GetStats_cases [of "''wxyz''" service_abcd] absent
  have "fst (GetStats ''wxyz'' service_abcd) = Inl NotFound" by blast
  moreover from GetStats_cases [of "''abcd''" service_abcd] present
  have "GetStats ''abcd'' service_abcd =
     (Inr \<lparr>TotalClicks = ClickCount entry_abcd,
            ShortURLStats.CreatedAt = ShortURL.CreatedAt entry_abcd,
            ShortURLStats.ExpiresAt = ShortURL.ExpiresAt entry_abcd,
            Clicks = ClickHistory entry_abcd\<rparr>, service_abcd)" by blast
  then have "GetStats ''abcd'' service_abcd =
     (Inr \<lparr>TotalClicks = 0, ShortURLStats.CreatedAt = 0, ShortURLStats.ExpiresAt = 60000000000,
            Clicks = []\<rparr>, service_abcd)" by (simp add: entry_abcd_def)
  moreover from GetStats_cases [of "''abcd''" NewURLService] service_abcd_created
  have "\<exists>code' stats. ShortLink \<lparr>ShortLink = ''http://localhost:3000/abcd'', Expiry = 60000000000\<rparr> =
        ''http://localhost:3000/'' @ code' \<and>
      GetStats code' service_abcd = (Inr stats, service_abcd) \<and> TotalClicks stats = 0" by blast
  then have "\<exists>code' stats. ''http://localhost:3000/abcd'' = ''http://localhost:3000/'' @ code' \<and>
      GetStats code' service_abcd = (Inr stats, service_abcd) \<and> TotalClicks stats = 0" by simp
  ultimately show ?thesis using service_abcd_created by blast
qed

section \<open>An empty custom code\<close>

text \<open>
  C10. A request whose \<open>ShortCode\<close> is the empty string is not rejected, although
  \<open>validateShortCode\<close> of the empty string is \<open>BadLength\<close>: when its URL validates and
  some read \<open>k\<close> of the random source gives a code absent from the mapping,
  \<open>CreateShortURL\<close> returns; the code is the one of the first read \<open>j\<close> whose code is
  absent (all earlier candidates are present, so each was retried), it has exactly 8
  characters, all lowercase hexadecimal, and the new record is inserted under it.
\<close>

theorem CreateShortURL_generates:
  assumes "CreateShortURLRequest.ShortCode req = []"
    and "validateURL url_Parse (URL req) = Inr ()"
    and "\<not> shortCodeExists s (codeOf (rnd k))"
  shows "\<exists>j\<le>k. (\<forall>m<j. shortCodeExists s (codeOf (rnd m))) \<and>
      \<not> shortCodeExists s (codeOf (rnd j)) \<and>
      length (codeOf (rnd j)) = 8 \<and> list_all isLowerHex (codeOf (rnd j)) \<and>
      validateShortCode (CreateShortURLRequest.ShortCode req) = Inl BadLength \<and>
      CreateShortURL url_Parse rnd now req s =
        Some (Inr \<lparr>ShortLink = ''http://localhost:3000/'' @ codeOf (rnd j),
                    Expiry = expiryOf now (effectiveValidity (Validity req))\<rparr>,
              s\<lparr>urls := (urls s)(codeOf (rnd j) \<mapsto> newShortURL now req (codeOf (rnd j)))\<rparr>)"
proof -
  from generateShortCode_returns [of s rnd k 0] assms(3) obtain c where
    gen: "generateShortCode s rnd 0 = Some c" by auto
  from generateShortCode_Some [OF gen] obtain j where
    j: "c = codeOf (rnd j)" "\<not> shortCodeExists s c"
       "\<forall>m. 0 \<le> m \<and> m < j \<longrightarrow> shortCodeExists s (codeOf (rnd m))" by blast
  have "j \<le> k"
  proof (rule ccontr)
    assume "\<not> j \<le> k"
    with j(3) have "shortCodeExists s (codeOf (rnd k))" by simp
    with assms(3) show False by contradiction
  qed
  moreover have "\<forall>m<j. shortCodeExists s (codeOf (rnd m))" using j(3) by simp
  moreover have "\<not> shortCodeExists s (codeOf (rnd j))" using j(1,2) by simp
  moreover have "validateShortCode (CreateShortURLRequest.ShortCode req) = Inl BadLength"
    using assms(1) by (simp add: validateShortCode_def)
  moreover have "CreateShortURL url_Parse rnd now req s =
        Some (Inr \<lparr>ShortLink = ''http://localhost:3000/'' @ codeOf (rnd j),
                    Expiry = expiryOf now (effectiveValidity (Validity req))\<rparr>,
              s\<lparr>urls := (urls s)(codeOf (rnd j) \<mapsto> newShortURL now req (codeOf (rnd j)))\<rparr>)"
    using assms(1,2) gen j(1)
    by (simp add: CreateShortURL_def CreateShortURL_entry_def CreateShortURL_store_def
        newShortURL_def)
  ultimately show ?thesis
    using length_codeOf [of "rnd j"] codeOf_hex [of "rnd j"] by blast
qed

theorem CreateShortURL_generates_witness:
  "shortCodeExists service_example (codeOf (rnd_sample 0)) \<and>
   \<not> shortCodeExists service_example (codeOf (rnd_sample 1)) \<and>
   codeOf (rnd_sample 1) = ''00000001'' \<and>
   CreateShortURL url_Parse_sample rnd_sample 7
      \<lparr>URL = ''b.com'', Validity = 0, ShortCode = ''''\<rparr> service_example =
     Some (Inr \<lparr>ShortLink = ''http://localhost:3000/00000001'', Expiry = 1800000000007\<rparr>,
           service_example\<lparr>urls := (urls service_example)(''00000001'' \<mapsto>
             \<lparr>ShortURL.ShortCode = ''00000001'', OriginalURL = ''b.com'',
              ShortURL.CreatedAt = 7, ShortURL.ExpiresAt = 1800000000007,
              ClickCount = 0, ClickHistory = []\<rparr>)\<rparr>)"
proof -
  let ?req = "\<lparr>URL = ''b.com'', Validity = 0, ShortCode = ''''\<rparr>"
  have c0: "codeOf (rnd_sample 0) = ''00000000''" and c1: "codeOf (rnd_sample 1) = ''00000001''"
    by (simp_all add: rnd_sample_def hextable_def)
  have taken: "shortCodeExists service_example (codeOf (rnd_sample 0))"
    unfolding c0 by (simp add: shortCodeExists_def service_example_def)
  have free: "\<not> shortCodeExists service_example (codeOf (rnd_sample 1))"
    unfolding c1 by (simp add: shortCodeExists_def service_example_def)
  have url: "validateURL url_Parse_sample (URL ?req) = Inr ()"
    by (simp add: validateURL_def addProtocol_def HasPrefix_def url_Parse_sample_def)
  have empty: "CreateShortURLRequest.ShortCode ?req = []" by simp
  from CreateShortURL_generates [where req = ?req and url_Parse = url_Parse_sample
      and s = service_example and rnd = rnd_sample and k = 1 and now = 7] empty url free
  obtain j where
    j: "j \<le> 1" "\<not> shortCodeExists service_example (codeOf (rnd_sample j))"
    and created: "CreateShortURL url_Parse_sample rnd_sample 7 ?req service_example =
        Some (Inr \<lparr>ShortLink = ''http://localhost:3000/'' @ codeOf (rnd_sample j),
                    Expiry = expiryOf 7 (effectiveValidity (Validity ?req))\<rparr>,
              service_example\<lparr>urls := (urls service_example)(codeOf (rnd_sample j) \<mapsto>
                newShortURL 7 ?req (codeOf (rnd_sample j)))\<rparr>)"
    by blast
  have "j \<noteq> 0"
  proof
    assume "j = 0"
    with j(2) taken show False by simp
  qed
  with j(1) have "j = 1" by simp
  with created have "CreateShortURL url_Parse_sample rnd_sample 7 ?req service_example =
     Some (Inr \<lparr>ShortLink = ''http://localhost:3000/00000001'', Expiry = 1800000000007\<rparr>,
           service_example\<lparr>urls := (urls service_example)(''00000001'' \<mapsto>
             \<lparr>ShortURL.ShortCode = ''00000001'', OriginalURL = ''b.com'',
              ShortURL.CreatedAt = 7, ShortURL.ExpiresAt = 1800000000007,
              ClickCount = 0, ClickHistory = []\<rparr>)\<rparr>)"
    using c1 by (simp add: newShortURL_def expiryOf_def effectiveValidity_def minute_def)
  with taken free c1 show ?thesis by blast
qed

section \<open>Custom codes\<close>

lemma validateShortCode_range_Inr:
  "validateShortCode_range code = Inr () \<longleftrightarrow> list_all isAlnum code"
  by (induction code) simp_all

lemma validateShortCode_range_Inl:
  "validateShortCode_range code = Inl err \<Longrightarrow> err = NonAlphanumeric"
  by (induction code) (simp_all split: if_splits)

text \<open>
  C9, as amended. \<open>validateShortCode\<close> fails with \<open>BadLength\<close> for every code whose
  length is outside 4..20; for every code whose length is inside 4..20 it fails with
  \<open>NonAlphanumeric\<close> when some character is outside a-z, A-Z, 0-9 and accepts when
  none is. A create whose custom code (a non-empty \<open>ShortCode\<close>) is invalid fails,
  with the validation error wrapped as an invalid shortcode when the URL validates, and
  returns the registry unchanged.
\<close>

theorem validateShortCode_cases:
  "(length code < 4 \<or> 20 < length code \<longrightarrow> validateShortCode code = Inl BadLength) \<and>
   (4 \<le> length code \<and> length code \<le> 20 \<and> \<not> list_all isAlnum code \<longrightarrow>
      validateShortCode code = Inl NonAlphanumeric) \<and>
   (4 \<le> length code \<and> length code \<le> 20 \<and> list_all isAlnum code \<longrightarrow>
      validateShortCode code = Inr ()) \<and>
   (\<forall>url_Parse rnd now req s err.
      CreateShortURLRequest.ShortCode req = code \<and> code \<noteq> [] \<and>
      validateShortCode code = Inl err \<longrightarrow>
      (\<exists>err'. CreateShortURL url_Parse rnd now req s = Some (Inl err', s) \<and>
         (validateURL url_Parse (URL req) = Inr () \<longrightarrow> err' = InvalidShortCode err)))"
proof (intro conjI allI impI)
  assume "length code < 4 \<or> 20 < length code"
  then show "validateShortCode code = Inl BadLength"
    by (auto simp add: validateShortCode_def)
next
  assume a: "4 \<le> length code \<and> length code \<le> 20 \<and> \<not> list_all isAlnum code"
  then have "validateShortCode_range code \<noteq> Inr ()"
    by (simp add: validateShortCode_range_Inr)
  then obtain err where "validateShortCode_range code = Inl err"
    by (cases "validateShortCode_range code") auto
  with validateShortCode_range_Inl [OF this] a
  show "validateShortCode code = Inl NonAlphanumeric"
    by (simp add: validateShortCode_def)
next
  assume "4 \<le> length code \<and> length code \<le> 20 \<and> list_all isAlnum code"
  then show "validateShortCode code = Inr ()"
    by (simp add: validateShortCode_def validateShortCode_range_Inr)
next
  fix url_Parse rnd now s err and req :: CreateShortURLRequest
  assume a: "CreateShortURLRequest.ShortCode req = code \<and> code \<noteq> [] \<and>
      validateShortCode code = Inl err"
  show "\<exists>err'. CreateShortURL url_Parse rnd now req s = Some (Inl err', s) \<and>
         (validateURL url_Parse (URL req) = Inr () \<longrightarrow> err' = InvalidShortCode err)"
  proof (cases "validateURL url_Parse (URL req)")
    case (Inl e)
    with a show ?thesis
      by (simp add: CreateShortURL_def CreateShortURL_entry_def)
  next
    case (Inr u)
    with a show ?thesis
      by (simp add: CreateShortURL_def CreateShortURL_entry_def)
  qed
qed

theorem validateShortCode_cases_witness:
  "validateShortCode ''abc'' = Inl BadLength \<and>
   validateShortCode ''abcdefghijklmnopqrstu'' = Inl BadLength \<and>
   validateShortCode ''abc#123'' = Inl NonAlphanumeric \<and>
   validateShortCode ''custom123'' = Inr () \<and>
   CreateShortURL url_Parse_sample rnd_sample 0
     \<lparr>URL = ''b.com'', Validity = 0, ShortCode = ''abc''\<rparr> service_abcd =
     Some (Inl (InvalidShortCode BadLength), service_abcd)"
proof -
  let ?req = "\<lparr>URL = ''b.com'', Validity = 0, ShortCode = ''abc''\<rparr>"
  have short: "validateShortCode ''abc'' = Inl BadLength"
    using validateShortCode_cases [of "''abc''"] by simp
  have long: "validateShortCode ''abcdefghijklmnopqrstu'' = Inl BadLength"
    using validateShortCode_cases [of "''abcdefghijklmnopqrstu''"] by simp
  have hash: "validateShortCode ''abc#123'' = Inl NonAlphanumeric"
    using validateShortCode_cases [of "''abc#123''"] by (simp add: isAlnum_def)
  have good: "validateShortCode ''custom123'' = Inr ()"
    using validateShortCode_cases [of "''custom123''"] by (simp add: isAlnum_def)
  have url: "validateURL url_Parse_sample (URL ?req) = Inr ()"
    by (simp add: validateURL_def addProtocol_def HasPrefix_def url_Parse_sample_def)
  have req: "CreateShortURLRequest.ShortCode ?req = ''abc'' \<and> ''abc'' \<noteq> [] \<and>
      validateShortCode ''abc'' = Inl BadLength"
    using short by simp
  from validateShortCode_cases [of "''abc''"] req url
  have "CreateShortURL url_Parse_sample rnd_sample 0 ?req service_abcd =
     Some (Inl (InvalidShortCode BadLength), service_abcd)"
    by blast
  with short long hash good show ?thesis by blast
qed

text \<open>
  C9 as stated asks \<open>NonAlphanumeric\<close> for every code with a character outside
  the three ranges. The length is tested first: the three-byte code \<open>ab#\<close> contains
  \<open>#\<close> and fails with \<open>BadLength\<close>.
\<close>

theorem validateShortCode_counterexample:
  "\<not> isAlnum CHR ''#'' \<and> CHR ''#'' \<in> set ''ab#'' \<and> validateShortCode ''ab#'' = Inl BadLength \<and>
   validateShortCode ''ab#'' \<noteq> Inl NonAlphanumeric"
  by (simp add: validateShortCode_def isAlnum_def)

section \<open>URL validation\<close>

text \<open>
  C8, as amended. \<open>validateURL\<close> fails with \<open>EmptyURL\<close> for the empty string. For a
  non-empty input that has neither the prefix \<open>http://\<close> nor \<open>https://\<close> the string
  handed to the parser is \<open>https://\<close> followed by the input; an input with one of the
  prefixes is parsed as it is. A non-empty input fails with \<open>MalformedURL\<close> exactly
  when \<open>url.Parse\<close> returns an error on that string, and is accepted exactly when it
  does not: the parsed URL is dropped, so neither its scheme nor its host is examined.
\<close>

theorem validateURL_cases:
  "validateURL url_Parse [] = Inl EmptyURL \<and>
   (raw \<noteq> [] \<and> \<not> HasPrefix raw ''http://'' \<and> \<not> HasPrefix raw ''https://'' \<longrightarrow>
      addProtocol raw = ''https://'' @ raw) \<and>
   (HasPrefix raw ''http://'' \<or> HasPrefix raw ''https://'' \<longrightarrow> addProtocol raw = raw) \<and>
   (raw \<noteq> [] \<longrightarrow>
      (validateURL url_Parse raw = Inl MalformedURL \<longleftrightarrow> url_Parse (addProtocol raw) = None) \<and>
      (validateURL url_Parse raw = Inr () \<longleftrightarrow> url_Parse (addProtocol raw) \<noteq> None))"
  by (auto simp add: validateURL_def addProtocol_def split: option.splits)

theorem validateURL_cases_witness:
  "validateURL url_Parse_sample [] = Inl EmptyURL \<and>
   addProtocol ''example.com'' = ''https://example.com'' \<and>
   validateURL url_Parse_sample ''example.com'' = Inr () \<and>
   addProtocol ''https://a.com'' = ''https://a.com'' \<and>
   validateURL url_Parse_sample ''https://a.com'' = Inr () \<and>
   addProtocol ''a b.com'' = ''https://a b.com'' \<and>
   validateURL url_Parse_sample ''a b.com'' = Inl MalformedURL"
proof -
  have bare: "''example.com'' \<noteq> [] \<and> \<not> HasPrefix ''example.com'' ''http://'' \<and>
      \<not> HasPrefix ''example.com'' ''https://''"
    and spaced: "''a b.com'' \<noteq> [] \<and> \<not> HasPrefix ''a b.com'' ''http://'' \<and>
      \<not> HasPrefix ''a b.com'' ''https://''"
    and full: "HasPrefix ''https://a.com'' ''https://''"
    by (simp_all add: HasPrefix_def)
  from validateURL_cases [of url_Parse_sample "''example.com''"] bare
  have a: "addProtocol ''example.com'' = ''https://example.com''" by simp
  from validateURL_cases [of url_Parse_sample "''https://a.com''"] full
  have b: "addProtocol ''https://a.com'' = ''https://a.com''" by blast
  from validateURL_cases [of url_Parse_sample "''a b.com''"] spaced
  have c: "addProtocol ''a b.com'' = ''https://a b.com''" by simp
  have "url_Parse_sample (addProtocol ''example.com'') \<noteq> None"
    unfolding a by (simp add: url_Parse_sample_def)
  with validateURL_cases [of url_Parse_sample "''example.com''"]
  have a': "validateURL url_Parse_sample ''example.com'' = Inr ()" by blast
  have "url_Parse_sample (addProtocol ''https://a.com'') \<noteq> None"
    unfolding b by (simp add: url_Parse_sample_def)
  with validateURL_cases [of url_Parse_sample "''https://a.com''"]
  have b': "validateURL url_Parse_sample ''https://a.com'' = Inr ()" by blast
  have "url_Parse_sample (addProtocol ''a b.com'') = None"
    unfolding c by (simp add: url_Parse_sample_def)
  with validateURL_cases [of url_Parse_sample "''a b.com''"]
  have c': "validateURL url_Parse_sample ''a b.com'' = Inl MalformedURL" by blast
  from validateURL_cases [of url_Parse_sample "''example.com''"] a a' b b' c c'
  show ?thesis by blast
qed

text \<open>
  C8 as stated asks \<open>MalformedURL\<close> whenever the parsed URL lacks a host.
  \<open>url.Parse\<close> parses \<open>https://\<close> without error into a URL whose host is empty, and
  \<open>validateURL\<close> accepts it.
\<close>

theorem validateURL_counterexample:
  "addProtocol ''https://'' = ''https://'' \<and>
   \<not> schemeAndHost (url_Parse_sample ''https://'') \<and>
   validateURL url_Parse_sample ''https://'' = Inr ()"
  by (simp add: validateURL_def addProtocol_def HasPrefix_def url_Parse_sample_def
      schemeAndHost_def)

section \<open>The stored URL\<close>

text \<open>
  Every successful create stores the URL of the request as it was sent: the prefixed
  string exists only in the local variable of \<open>validateURL\<close>.
\<close>

lemma CreateShortURL_OriginalURL:
  assumes "CreateShortURL url_Parse rnd now req s = Some (Inr resp, s')"
  shows "\<exists>code r. ShortLink resp = ''http://localhost:3000/'' @ code \<and>
     urls s' code = Some r \<and> OriginalURL r = URL req"
proof -
  from CreateShortURL_Inr [OF assms] obtain code where
    "resp = \<lparr>ShortLink = ''http://localhost:3000/'' @ code,
             Expiry = expiryOf now (effectiveValidity (Validity req))\<rparr>"
    "s' = s\<lparr>urls := (urls s)(code \<mapsto> newShortURL now req code)\<rparr>" by blast
  then show ?thesis
    by (intro exI [of _ code] exI [of _ "newShortURL now req code"]) (simp add: newShortURL_def)
qed

text \<open>
  C1. The claim asks that a create whose URL lacks the protocol stores \<open>https://\<close>
  followed by the input and that resolving the returned code gives that string. On the
  request \<open>{url: example.com, validity: 60}\<close> the parser is handed
  \<open>https://example.com\<close>, but the record stores \<open>example.com\<close>, and
  \<open>GetOriginalURL\<close> of the returned code returns \<open>example.com\<close>.
\<close>

theorem CreateShortURL_keeps_raw_URL:
  "CreateShortURL url_Parse_sample rnd_sample 0
     \<lparr>URL = ''example.com'', Validity = 60, ShortCode = ''''\<rparr> NewURLService =
   Some (Inr \<lparr>ShortLink = ''http://localhost:3000/00000000'', Expiry = 3600000000000\<rparr>,
         service_example) \<and>
   addProtocol ''example.com'' = ''https://example.com'' \<and>
   OriginalURL entry_example = ''example.com'' \<and>
   GetOriginalURL 1 ''00000000'' service_example = (Inr ''example.com'', service_example)"
  by (simp add: CreateShortURL_def CreateShortURL_entry_def CreateShortURL_store_def
      validateURL_def addProtocol_def HasPrefix_def url_Parse_sample_def
      generateShortCode.simps [of _ _ 0] rnd_sample_def hextable_def
      shortCodeExists_def NewURLService_def newShortURL_def expiryOf_def
      effectiveValidity_def minute_def service_example_def entry_example_def GetOriginalURL_def)

section \<open>Expiry\<close>

text \<open>
  A request's validity up to 153722867 minutes gives the expiry the request asks for,
  strictly after the creation; a validity of zero or less gives thirty minutes.
\<close>

lemma expiryOf_in_range:
  assumes "0 < sint validity" and "sint validity \<le> 153722867"
  shows "expiryOf now (effectiveValidity validity) = now + sint validity * 60000000000"
    and "now < expiryOf now (effectiveValidity validity)"
proof -
  have "sint (validity * minute) = signed_take_bit 63 (sint validity * 60000000000)"
    by (simp add: sint_word_ariths minute_def)
  also have "\<dots> = sint validity * 60000000000"
    using assms by (intro signed_take_bit_int_eq_self) simp_all
  finally have "sint (validity * minute) = sint validity * 60000000000" .
  with assms show "expiryOf now (effectiveValidity validity) = now + sint validity * 60000000000"
    and "now < expiryOf now (effectiveValidity validity)"
    by (simp_all add: expiryOf_def effectiveValidity_def)
qed

lemma expiryOf_default:
  assumes "sint validity \<le> 0"
  shows "expiryOf now (effectiveValidity validity) = now + 30 * 60000000000"
  using assms by (simp add: expiryOf_def effectiveValidity_def minute_def)

text \<open>
  C7. The claim asks that \<open>ExpiresAt\<close> is \<open>CreatedAt\<close> plus the validity in minutes and
  so strictly later. \<open>time.Duration(validity) * time.Minute\<close> is a 64-bit product: for
  a validity of 153722868 minutes it wraps to a negative duration, the record created at
  instant 0 expires more than 292 years earlier, and resolving it one nanosecond later
  fails with \<open>Expired\<close>.
\<close>

theorem CreateShortURL_expiry_overflow:
  "CreateShortURL url_Parse_sample rnd_sample 0
     \<lparr>URL = ''https://a.com'', Validity = 153722868, ShortCode = ''abcd''\<rparr> NewURLService =
   Some (Inr \<lparr>ShortLink = ''http://localhost:3000/abcd'', Expiry = - 9223371993709551616\<rparr>,
         \<lparr>urls = [''abcd'' \<mapsto> entry_abcd\<lparr>ShortURL.ExpiresAt := - 9223371993709551616\<rparr>]\<rparr>) \<and>
   ShortURL.ExpiresAt (entry_abcd\<lparr>ShortURL.ExpiresAt := - 9223371993709551616\<rparr>) <
     ShortURL.CreatedAt (entry_abcd\<lparr>ShortURL.ExpiresAt := - 9223371993709551616\<rparr>) \<and>
   GetOriginalURL 1 ''abcd''
     \<lparr>urls = [''abcd'' \<mapsto> entry_abcd\<lparr>ShortURL.ExpiresAt := - 9223371993709551616\<rparr>]\<rparr> =
     (Inl Expired,
      \<lparr>urls = [''abcd'' \<mapsto> entry_abcd\<lparr>ShortURL.ExpiresAt := - 9223371993709551616\<rparr>]\<rparr>)"
  by (simp add: CreateShortURL_def CreateShortURL_entry_def CreateShortURL_store_def
      validateURL_def addProtocol_def HasPrefix_def url_Parse_sample_def validateShortCode_def
      isAlnum_def shortCodeExists_def NewURLService_def newShortURL_def expiryOf_def
      effectiveValidity_def minute_def entry_abcd_def GetOriginalURL_def)

section \<open>Collisions\<close>

text \<open>
  C4. The claim asks that of two concurrent creates with the same custom code exactly
  one succeeds, the check and the insert sharing one lock acquisition. In the source
  \<open>shortCodeExists\<close> releases its read lock when it returns, and the write lock is
  taken later, around the assignment to the map only. So two calls for the code
  \<open>abcd\<close> on the empty registry can both pass the check before either stores: both
  get an entry, both stores succeed with a link, and the second store replaces the
  record of the first. Run one after the other, the second call fails with
  \<open>CodeCollision\<close> and changes nothing (the last conjunct, and
  \<open>CreateShortURL_collision\<close> for every registry).
\<close>

theorem CreateShortURL_check_then_store_race:
  "CreateShortURL_entry url_Parse_sample rnd_sample 0
     \<lparr>URL = ''https://a.com'', Validity = 1, ShortCode = ''abcd''\<rparr> NewURLService =
     Some (Inr entry_abcd) \<and>
   CreateShortURL_entry url_Parse_sample rnd_sample 0
     \<lparr>URL = ''https://b.com'', Validity = 1, ShortCode = ''abcd''\<rparr> NewURLService =
     Some (Inr (entry_abcd\<lparr>OriginalURL := ''https://b.com''\<rparr>)) \<and>
   CreateShortURL_store entry_abcd NewURLService =
     (\<lparr>ShortLink = ''http://localhost:3000/abcd'', Expiry = 60000000000\<rparr>, service_abcd) \<and>
   CreateShortURL_store (entry_abcd\<lparr>OriginalURL := ''https://b.com''\<rparr>) service_abcd =
     (\<lparr>ShortLink = ''http://localhost:3000/abcd'', Expiry = 60000000000\<rparr>,
      \<lparr>urls = [''abcd'' \<mapsto> entry_abcd\<lparr>OriginalURL := ''https://b.com''\<rparr>]\<rparr>) \<and>
   CreateShortURL url_Parse_sample rnd_sample 0
     \<lparr>URL = ''https://b.com'', Validity = 1, ShortCode = ''abcd''\<rparr> service_abcd =
     Some (Inl CodeCollision, service_abcd)"
  by (simp add: CreateShortURL_def CreateShortURL_entry_def CreateShortURL_store_def
      validateURL_def addProtocol_def HasPrefix_def url_Parse_sample_def validateShortCode_def
      isAlnum_def shortCodeExists_def NewURLService_def newShortURL_def expiryOf_def
      effectiveValidity_def minute_def service_abcd_def entry_abcd_def)

end
